theory Spec2Isabelle
  imports Main "HOL-Library.Sublist" "HOL-Library.AList"
begin

section \<open>Python primitives used by the EDI comparison module\<close>

text \<open>
  The module \<^verbatim>\<open>batchCompareWithMaskedReport.py\<close> works on Python strings. A text is
  modelled as a \<^typ>\<open>string\<close>, a list of characters; the element delimiter of a document
  is one character of its ISA segment, so every separator passed to \<^verbatim>\<open>str.split\<close> is a
  single character. Exceptions are values of the type \<open>error\<close>, and a function that may
  raise returns \<open>error + 'a\<close>.
\<close>

datatype error = ValueError string | IndexError

text \<open>
  \<^verbatim>\<open>s.split(c)\<close> for a one-character separator: the pieces between the occurrences of
  \<open>c\<close>; the result is never empty, and \<^verbatim>\<open>''.split(c) == ['']\<close>.
\<close>

fun py_split :: "string \<Rightarrow> char \<Rightarrow> string list" where
  "py_split [] c = [[]]"
| "py_split (x # xs) c =
     (if x = c then [] # py_split xs c
      else (x # hd (py_split xs c)) # tl (py_split xs c))"

text \<open>\<^verbatim>\<open>sep.join(parts)\<close>.\<close>

fun py_join :: "string \<Rightarrow> string list \<Rightarrow> string" where
  "py_join sep [] = []"
| "py_join sep [x] = x"
| "py_join sep (x # y # ys) = x @ sep @ py_join sep (y # ys)"

text \<open>\<^verbatim>\<open>s.startswith(p)\<close>.\<close>

definition startswith :: "string \<Rightarrow> string \<Rightarrow> bool" where
  "startswith s p = (take (length p) s = p)"

text \<open>
  \<^verbatim>\<open>xs[i]\<close> and \<^verbatim>\<open>xs[i] = v\<close> for a non-negative index: both raise \<^verbatim>\<open>IndexError\<close>
  out of range.
\<close>

definition py_getitem :: "'a list \<Rightarrow> nat \<Rightarrow> error + 'a" where
  "py_getitem xs i = (if i < length xs then Inr (xs ! i) else Inl IndexError)"

definition py_setitem :: "'a list \<Rightarrow> nat \<Rightarrow> 'a \<Rightarrow> error + 'a list" where
  "py_setitem xs i v = (if i < length xs then Inr (xs[i := v]) else Inl IndexError)"

text \<open>\<^verbatim>\<open>"#" * n\<close>.\<close>

definition hashes :: "nat \<Rightarrow> string" where
  "hashes n = replicate n (CHR ''#'')"

section \<open>The masking pass: \<^verbatim>\<open>mask_dates_times\<close>\<close>

text \<open>
  The body of the \<^verbatim>\<open>try\<close> block (lines 65 to 71) on the list \<open>elements\<close>, which the
  source updates in place: the result is the updated list, or the \<^verbatim>\<open>IndexError\<close> an
  element access raised.
\<close>

definition mask_elements :: "string list \<Rightarrow> error + string list" where
  "mask_elements elements =
     (case py_getitem elements 0 of
        Inl e \<Rightarrow> Inl e
      | Inr tag \<Rightarrow>
          if tag = ''BEG'' \<and> length elements > 5 then
            (case py_getitem elements 5 of
               Inl e \<Rightarrow> Inl e
             | Inr v \<Rightarrow> py_setitem elements 5 (hashes (length v)))
          else if tag = ''DTM'' then
            (case (if length elements > 2
                   then (case py_getitem elements 2 of
                           Inl e \<Rightarrow> Inl e
                         | Inr v \<Rightarrow> if v \<noteq> [] then py_setitem elements 2 (hashes (length v))
                                    else Inr elements)
                   else Inr elements) of
               Inl e \<Rightarrow> Inl e
             | Inr elements2 \<Rightarrow>
                 if length elements2 > 3
                 then (case py_getitem elements2 3 of
                         Inl e \<Rightarrow> Inl e
                       | Inr v \<Rightarrow> if v \<noteq> [] then py_setitem elements2 3 (hashes (length v))
                                  else Inr elements2)
                 else Inr elements2)
          else Inr elements)"

text \<open>
  One iteration of the loop (lines 60 to 74): \<open>None\<close> is a \<^verbatim>\<open>continue\<close> (the segment is
  dropped), \<open>Some s\<close> is the segment appended to \<^verbatim>\<open>masked_segments\<close>.
\<close>

definition mask_segment :: "string \<Rightarrow> char \<Rightarrow> string option" where
  "mask_segment seg data_element_sep =
     (let elements = py_split seg data_element_sep in
      if elements = [] then None
      else (case mask_elements elements of
              Inl e \<Rightarrow> None
            | Inr elements' \<Rightarrow> Some (py_join [data_element_sep] elements')))"

fun mask_dates_times :: "string list \<Rightarrow> char \<Rightarrow> string list" where
  "mask_dates_times [] data_element_sep = []"
| "mask_dates_times (seg # segments) data_element_sep =
     (case mask_segment seg data_element_sep of
        None \<Rightarrow> mask_dates_times segments data_element_sep
      | Some s \<Rightarrow> s # mask_dates_times segments data_element_sep)"

section \<open>The envelope parser: \<^verbatim>\<open>parse_edi\<close>\<close>

text \<open>
  A Python \<^verbatim>\<open>dict\<close> with string keys and values is an association list in insertion
  order; \<^verbatim>\<open>d.get(k, dflt)\<close> is \<open>dict_get\<close>.
\<close>

type_synonym dict = "(string \<times> string) list"

definition dict_get :: "dict \<Rightarrow> string \<Rightarrow> string \<Rightarrow> string" where
  "dict_get d k dflt = (case map_of d k of None \<Rightarrow> dflt | Some v \<Rightarrow> v)"

text \<open>
  \<^verbatim>\<open>s.strip()\<close> removes leading and trailing whitespace: the characters for which
  \<^verbatim>\<open>str.isspace\<close> holds (tab, line feed, vertical tab, form feed, carriage return, the
  four separators 0x1C to 0x1F, space, next line 0x85 and no-break space 0xA0).
\<close>

definition is_space :: "char \<Rightarrow> bool" where
  "is_space c = (c \<in> set [CHR 0x09, CHR 0x0A, CHR 0x0B, CHR 0x0C, CHR 0x0D, CHR 0x1C,
                           CHR 0x1D, CHR 0x1E, CHR 0x1F, CHR 0x20, CHR 0x85, CHR 0xA0])"

definition py_strip :: "string \<Rightarrow> string" where
  "py_strip s = rev (dropWhile is_space (rev (dropWhile is_space s)))"

record delimiter_set =
  data_element :: char
  sub_element :: char
  segment :: char

record parsed_document =
  separators :: delimiter_set
  isa :: dict
  gs :: dict
  inner_payload :: "string list"

text \<open>
  One iteration of the loop over the segments (lines 32 to 54). The state is the
  \<^verbatim>\<open>results\<close> dictionary together with the flag \<^verbatim>\<open>capture_payload\<close>.
\<close>

definition parse_segment ::
  "char \<Rightarrow> string \<Rightarrow> parsed_document \<times> bool \<Rightarrow> parsed_document \<times> bool" where
  "parse_segment data_element_sep seg st =
     (let results = fst st;
          capture_payload = snd st;
          elements = py_split seg data_element_sep
      in
      if elements = [] \<or> hd elements = [] then (results, capture_payload)
      else if hd elements = ''ISA'' then
        (results\<lparr>isa :=
           [(''sender_qualifier'', if length elements > 5 then elements ! 5 else []),
            (''sender_id'', if length elements > 6 then py_strip (elements ! 6) else []),
            (''receiver_qualifier'', if length elements > 7 then elements ! 7 else []),
            (''receiver_id'', if length elements > 8 then py_strip (elements ! 8) else []),
            (''control_number'', if length elements > 13 then elements ! 13 else [])]\<rparr>,
         capture_payload)
      else if hd elements = ''GS'' then
        (results\<lparr>gs :=
           [(''gs01'', if length elements > 1 then elements ! 1 else []),
            (''gs02'', if length elements > 2 then elements ! 2 else []),
            (''gs03'', if length elements > 3 then elements ! 3 else [])]\<rparr>,
         capture_payload)
      else if hd elements = ''ST'' then (results, True)
      else if hd elements = ''SE'' then (results, False)
      else if capture_payload \<and> seg \<noteq> [] then
        (results\<lparr>inner_payload := inner_payload results @ [seg]\<rparr>, capture_payload)
      else (results, capture_payload))"

fun parse_segments ::
  "char \<Rightarrow> string list \<Rightarrow> parsed_document \<times> bool \<Rightarrow> parsed_document \<times> bool" where
  "parse_segments data_element_sep [] st = st"
| "parse_segments data_element_sep (seg # segments) st =
     parse_segments data_element_sep segments (parse_segment data_element_sep seg st)"

text \<open>
  \<^verbatim>\<open>parse_edi\<close>: the generator of line 14 is \<open>find\<close>; a \<^verbatim>\<open>StopIteration\<close> becomes the
  \<^verbatim>\<open>ValueError\<close> of line 16. The read \<^verbatim>\<open>isa_segment[3]\<close> of line 17 is outside the
  \<^verbatim>\<open>try\<close> block and raises \<^verbatim>\<open>IndexError\<close> when the segment has fewer than four
  characters. The read \<^verbatim>\<open>isa_segment[-2]\<close> is behind the length test of line 18.
\<close>

definition parse_edi :: "string \<Rightarrow> error + parsed_document" where
  "parse_edi edi_content =
     (case find (\<lambda>seg. startswith seg ''ISA'') (py_split edi_content (CHR ''~'')) of
        None \<Rightarrow> Inl (ValueError ''No ISA segment found in EDI content'')
      | Some isa_segment \<Rightarrow>
          (case py_getitem isa_segment 3 of
             Inl e \<Rightarrow> Inl e
           | Inr data_element_sep \<Rightarrow>
               (let sub_element_sep =
                      (if length isa_segment \<ge> 106
                       then isa_segment ! (length isa_segment - 2) else CHR '':'');
                    results = \<lparr>separators = \<lparr>data_element = data_element_sep,
                                              sub_element = sub_element_sep,
                                              segment = CHR ''~''\<rparr>,
                               isa = [], gs = [], inner_payload = []\<rparr>;
                    segments = py_split edi_content (CHR ''~'')
                in Inr (fst (parse_segments data_element_sep segments (results, False))))))"

section \<open>The pair comparator: \<^verbatim>\<open>compare_pair\<close>\<close>

text \<open>
  The dictionary \<^verbatim>\<open>report_data\<close> and the dictionary \<^verbatim>\<open>compare_pair\<close> returns. The
  three entries \<^verbatim>\<open>summary_html\<close>, \<^verbatim>\<open>original_diff\<close> and \<^verbatim>\<open>masked_diff\<close> are HTML
  rendered from the values below by the report generator and by \<^verbatim>\<open>difflib\<close>; the
  record keeps the two masked texts the last of them is rendered from.
\<close>

record report_data =
  file1_name :: string
  file2_name :: string
  isa_sender_qualifier :: string
  isa_sender_id :: string
  isa_receiver_qualifier :: string
  isa_receiver_id :: string
  report_gs01 :: string
  report_gs02 :: string
  report_gs03 :: string
  report_isa_match :: bool
  report_gs_match :: bool
  report_masked_match :: bool

record comparison =
  isa_match :: bool
  gs_match :: bool
  masked_match :: bool
  masked1 :: string
  masked2 :: string
  report :: report_data

definition isa_fields :: "string list" where
  "isa_fields = [''sender_qualifier'', ''sender_id'', ''receiver_qualifier'', ''receiver_id'']"

definition gs_fields :: "string list" where
  "gs_fields = [''gs01'', ''gs02'', ''gs03'']"

definition compare_pair :: "string \<Rightarrow> string \<Rightarrow> string \<Rightarrow> string \<Rightarrow> error + comparison" where
  "compare_pair file1 file2 file1_content file2_content =
     (case parse_edi file1_content of
        Inl e \<Rightarrow> Inl e
      | Inr parsed1 \<Rightarrow>
     (case parse_edi file2_content of
        Inl e \<Rightarrow> Inl e
      | Inr parsed2 \<Rightarrow>
          (let im = list_all (\<lambda>k. dict_get (isa parsed1) k [] = dict_get (isa parsed2) k [])
                             isa_fields;
               gm = list_all (\<lambda>k. dict_get (gs parsed1) k [] = dict_get (gs parsed2) k [])
                             gs_fields;
               sep1 = data_element (separators parsed1);
               sep2 = data_element (separators parsed2);
               m1 = py_join [CHR 0x0A] (mask_dates_times (inner_payload parsed1) sep1);
               m2 = py_join [CHR 0x0A] (mask_dates_times (inner_payload parsed2) sep2);
               mm = (m1 = m2)
           in Inr \<lparr>isa_match = im, gs_match = gm, masked_match = mm,
                   masked1 = m1, masked2 = m2,
                   report = \<lparr>file1_name = file1, file2_name = file2,
                      isa_sender_qualifier = dict_get (isa parsed1) ''sender_qualifier'' [],
                      isa_sender_id = dict_get (isa parsed1) ''sender_id'' [],
                      isa_receiver_qualifier = dict_get (isa parsed1) ''receiver_qualifier'' [],
                      isa_receiver_id = dict_get (isa parsed1) ''receiver_id'' [],
                      report_gs01 = dict_get (gs parsed1) ''gs01'' [],
                      report_gs02 = dict_get (gs parsed1) ''gs02'' [],
                      report_gs03 = dict_get (gs parsed1) ''gs03'' [],
                      report_isa_match = im, report_gs_match = gm,
                      report_masked_match = mm\<rparr>\<rparr>)))"

section \<open>Batch folder processing\<close>

text \<open>
  An uploaded file is its name and its decoded text. \<^verbatim>\<open>os.path.basename\<close> keeps what
  follows the last slash, and \<^verbatim>\<open>re.sub(r'\r?\n', '', s)\<close> deletes every line feed
  together with a carriage return directly before it.
\<close>

type_synonym uploaded_file = "string \<times> string"

definition basename :: "string \<Rightarrow> string" where
  "basename p = last (py_split p (CHR ''/''))"

fun strip_newlines :: "string \<Rightarrow> string" where
  "strip_newlines [] = []"
| "strip_newlines [c] = (if c = CHR 0x0A then [] else [c])"
| "strip_newlines (c # d # cs) =
     (if c = CHR 0x0D \<and> d = CHR 0x0A then strip_newlines cs
      else if c = CHR 0x0A then strip_newlines (d # cs)
      else c # strip_newlines (d # cs))"

text \<open>
  An entry of the dictionary \<^verbatim>\<open>results\<close> holds the two file names and the three HTML
  strings copied from the comparison, which stands for them here.
\<close>

record batch_entry =
  from_name :: string
  to_name :: string
  entry_comparison :: comparison

record batch_state =
  results :: "(string \<times> batch_entry) list"
  all_report_data :: "report_data list"

text \<open>
  The dictionary comprehension of line 329: a later file of the same base name replaces
  an earlier one.
\<close>

definition to_files_map :: "uploaded_file list \<Rightarrow> (string \<times> string) list" where
  "to_files_map to_files = fold (\<lambda>f. AList.update (basename (fst f)) (snd f)) to_files []"

text \<open>
  One iteration of the loop over \<^verbatim>\<open>from_files\<close> (lines 335 to 356). \<open>Inr\<close> of the
  unchanged state is a \<^verbatim>\<open>continue\<close>; an exception of \<^verbatim>\<open>compare_pair\<close> is not caught.
  \<^verbatim>\<open>parts[-1]\<close> and \<^verbatim>\<open>split(".")[0]\<close> read lists that \<^verbatim>\<open>str.split\<close> never returns
  empty.
\<close>

definition batch_step ::
  "(string \<times> string) list \<Rightarrow> uploaded_file \<Rightarrow> batch_state \<Rightarrow> error + batch_state" where
  "batch_step files_map from_file st =
     (let filename = basename (fst from_file) in
      if CHR ''_'' \<notin> set filename then Inr st
      else
        (let parts = py_split filename (CHR ''_'') in
         if length parts < 2 then Inr st
         else
           (let uuid = hd (py_split (last parts) (CHR ''.''));
                matching_to_name = hd parts @ ''bla_'' @ uuid @ ''.txt''
            in case map_of files_map matching_to_name of
                 None \<Rightarrow> Inr st
               | Some to_text \<Rightarrow>
                   (case compare_pair filename matching_to_name
                           (strip_newlines (snd from_file)) (strip_newlines to_text) of
                      Inl e \<Rightarrow> Inl e
                    | Inr cmp \<Rightarrow>
                        Inr \<lparr>results = AList.update uuid
                                         \<lparr>from_name = filename, to_name = matching_to_name,
                                          entry_comparison = cmp\<rparr> (results st),
                             all_report_data = all_report_data st @ [report cmp]\<rparr>))))"

fun batch_loop ::
  "(string \<times> string) list \<Rightarrow> uploaded_file list \<Rightarrow> batch_state \<Rightarrow> error + batch_state" where
  "batch_loop files_map [] st = Inr st"
| "batch_loop files_map (from_file # from_files) st =
     (case batch_step files_map from_file st of
        Inl e \<Rightarrow> Inl e
      | Inr st' \<Rightarrow> batch_loop files_map from_files st')"

definition batch_process :: "uploaded_file list \<Rightarrow> uploaded_file list \<Rightarrow> error + batch_state" where
  "batch_process from_files to_files =
     batch_loop (to_files_map to_files) from_files \<lparr>results = [], all_report_data = []\<rparr>"

section \<open>The specification's wording\<close>

text \<open>
  The normalizer as the specification describes it, on one segment: the element at a
  position is replaced by a run of \<open>#\<close> of its length when the position exists and the
  element is not empty; a \<open>BEG\<close> segment of more than five elements has position 5
  replaced, a \<open>DTM\<close> segment positions 2 and 3, and a segment of another tag is returned
  as it is.
\<close>

definition mask_at :: "nat \<Rightarrow> string list \<Rightarrow> string list" where
  "mask_at i es = (if i < length es \<and> es ! i \<noteq> [] then es[i := hashes (length (es ! i))] else es)"

definition normalize_elements :: "string list \<Rightarrow> string list" where
  "normalize_elements es =
     (if hd es = ''BEG'' \<and> length es > 5 then es[5 := hashes (length (es ! 5))]
      else if hd es = ''DTM'' then mask_at 3 (mask_at 2 es)
      else es)"

definition normalize_segment :: "char \<Rightarrow> string \<Rightarrow> string" where
  "normalize_segment sep seg =
     (let es = py_split seg sep in
      if hd es = ''BEG'' \<or> hd es = ''DTM'' then py_join [sep] (normalize_elements es)
      else seg)"

text \<open>The pieces of a list of elements when each is split again at the delimiter.\<close>

definition resplit :: "char \<Rightarrow> string list \<Rightarrow> string list" where
  "resplit c es = concat (map (\<lambda>e. py_split e c) es)"

text \<open>
  The payload as the specification describes it. The tag of a segment is its first
  element. Capture is on after a list of segments when the last \<open>ST\<close> or \<open>SE\<close> segment
  among them is an \<open>ST\<close> (the last toggle wins; there is none at the start).
  \<open>captured_segments\<close> keeps every segment that occurs while capture is on and is not
  itself an \<open>ST\<close> or \<open>SE\<close> segment; \<open>payload_segments\<close> leaves out, in addition, the
  segments whose tag is empty, \<open>ISA\<close> or \<open>GS\<close>.
\<close>

definition tag_of :: "char \<Rightarrow> string \<Rightarrow> string" where
  "tag_of sep seg = hd (py_split seg sep)"

definition is_toggle :: "char \<Rightarrow> string \<Rightarrow> bool" where
  "is_toggle sep seg = (tag_of sep seg = ''ST'' \<or> tag_of sep seg = ''SE'')"

definition capture_on :: "char \<Rightarrow> string list \<Rightarrow> bool" where
  "capture_on sep before =
     (case find (is_toggle sep) (rev before) of
        None \<Rightarrow> False
      | Some s \<Rightarrow> tag_of sep s = ''ST'')"

definition captured_segments :: "char \<Rightarrow> string list \<Rightarrow> string list" where
  "captured_segments sep segs =
     map (\<lambda>i. segs ! i)
       (filter (\<lambda>i. capture_on sep (take i segs) \<and> \<not> is_toggle sep (segs ! i))
          [0..<length segs])"

definition is_header :: "char \<Rightarrow> string \<Rightarrow> bool" where
  "is_header sep seg = (tag_of sep seg = [] \<or> tag_of sep seg = ''ISA'' \<or> tag_of sep seg = ''GS'')"

definition payload_segments :: "char \<Rightarrow> string list \<Rightarrow> string list" where
  "payload_segments sep segs =
     map (\<lambda>i. segs ! i)
       (filter (\<lambda>i. capture_on sep (take i segs) \<and> \<not> is_toggle sep (segs ! i)
                     \<and> \<not> is_header sep (segs ! i))
          [0..<length segs])"

text \<open>
  The pairing key and the expected target name as the specification describes them:
  the part of a file name before its first underscore, the part after its last
  underscore, and that part cut before its first dot.
\<close>

definition first_part :: "string \<Rightarrow> string" where
  "first_part filename = takeWhile (\<lambda>c. c \<noteq> CHR ''_'') filename"

definition last_part :: "string \<Rightarrow> string" where
  "last_part filename = rev (takeWhile (\<lambda>c. c \<noteq> CHR ''_'') (rev filename))"

definition pairing_key :: "string \<Rightarrow> string" where
  "pairing_key filename = takeWhile (\<lambda>c. c \<noteq> CHR ''.'') (last_part filename)"

definition expected_target :: "string \<Rightarrow> string" where
  "expected_target filename = first_part filename @ ''bla_'' @ pairing_key filename @ ''.txt''"

text \<open>The first segment of a text that begins with \<open>ISA\<close>.\<close>

definition isa_segment_of :: "string \<Rightarrow> string option" where
  "isa_segment_of text = find (\<lambda>seg. startswith seg ''ISA'') (py_split text (CHR ''~''))"

section \<open>Splitting and joining\<close>

lemma py_split_not_Nil: "py_split s c \<noteq> []"
  by (induction s) auto

lemma py_join_split: "py_join [c] (py_split s c) = s"
proof (induction s)
  case Nil show ?case by simp
next
  case (Cons x xs)
  obtain w ws where sp: "py_split xs c = w # ws"
    using py_split_not_Nil by (cases "py_split xs c") auto
  from Cons sp show ?case by (cases ws) auto
qed

lemma py_split_free: "e \<in> set (py_split s c) \<Longrightarrow> c \<notin> set e"
proof (induction s arbitrary: e)
  case Nil then show ?case by simp
next
  case (Cons x xs)
  obtain w ws where sp: "py_split xs c = w # ws"
    using py_split_not_Nil by (cases "py_split xs c") auto
  from Cons sp show ?case by (auto split: if_splits)
qed

lemma py_split_append: "py_split (a @ c # b) c = py_split a c @ py_split b c"
proof (induction a)
  case Nil show ?case by simp
next
  case (Cons x xs)
  obtain w ws where sp: "py_split xs c = w # ws"
    using py_split_not_Nil by (cases "py_split xs c") auto
  from Cons sp show ?case by auto
qed

lemma py_split_no_sep: "c \<notin> set e \<Longrightarrow> py_split e c = [e]"
  by (induction e) auto

lemma py_split_join_concat:
  "es \<noteq> [] \<Longrightarrow> py_split (py_join [c] es) c = concat (map (\<lambda>e. py_split e c) es)"
proof (induction es)
  case Nil then show ?case by simp
next
  case (Cons x xs)
  show ?case
  proof (cases xs)
    case Nil then show ?thesis by simp
  next
    case (Cons y ys)
    with Cons.IH have "py_split (py_join [c] (y # ys)) c = concat (map (\<lambda>e. py_split e c) (y # ys))"
      by simp
    with Cons show ?thesis by (simp add: py_split_append)
  qed
qed

lemma py_split_join:
  "es \<noteq> [] \<Longrightarrow> \<forall>e\<in>set es. c \<notin> set e \<Longrightarrow> py_split (py_join [c] es) c = es"
proof -
  assume ne: "es \<noteq> []" and fr: "\<forall>e\<in>set es. c \<notin> set e"
  from fr have "concat (map (\<lambda>e. py_split e c) es) = es"
    by (induction es) (auto simp: py_split_no_sep)
  with ne show ?thesis by (simp add: py_split_join_concat)
qed

lemma py_split_replicate: "py_split (replicate k c) c = replicate (Suc k) []"
  by (induction k) auto

section \<open>The masking pass never raises\<close>

lemma length_mask_at [simp]: "length (mask_at i es) = length es"
  by (simp add: mask_at_def)

lemma mask_elements_total:
  "es \<noteq> [] \<Longrightarrow> mask_elements es = Inr (normalize_elements es)"
  by (cases es)
     (auto simp: mask_elements_def normalize_elements_def mask_at_def py_getitem_def py_setitem_def)

lemma mask_segment_total:
  "mask_segment seg c = Some (py_join [c] (normalize_elements (py_split seg c)))"
  by (simp add: mask_segment_def py_split_not_Nil mask_elements_total)

lemma normalize_segment_eq:
  "normalize_segment c seg = py_join [c] (normalize_elements (py_split seg c))"
  by (auto simp: normalize_segment_def Let_def normalize_elements_def py_join_split)

lemma mask_dates_times_map:
  "mask_dates_times segs c = map (normalize_segment c) segs"
  by (induction segs) (simp_all add: mask_segment_total normalize_segment_eq)


section \<open>Claims about the normalizer\<close>

text \<open>
  Claim C3. After splitting a segment at the delimiter, the normalizer replaces element 5
  of a \<open>BEG\<close> segment of more than five elements by a run of \<open>#\<close> of the same length,
  replaces elements 2 and 3 of a \<open>DTM\<close> segment, each when present and not empty, by
  such runs, returns a segment of any other tag unchanged, rejoins the elements with the
  same delimiter, and keeps the order of the segments: the result of
  \<open>mask_dates_times\<close> is the specified normalization of each segment in turn.
\<close>

theorem mask_dates_times_normalizes:
  "mask_dates_times segments sep = map (normalize_segment sep) segments"
  by (rule mask_dates_times_map)

text \<open>
  Claim C10. The normalizer never drops a segment: the masking of the elements of a
  split segment never raises, every iteration appends its segment, and the output has
  one segment for each input segment, in the same order.
\<close>

theorem mask_dates_times_never_drops:
  "mask_elements (py_split seg sep) = Inr (normalize_elements (py_split seg sep))
   \<and> map Some (mask_dates_times segments sep) = map (\<lambda>s. mask_segment s sep) segments
   \<and> length (mask_dates_times segments sep) = length segments"
proof (intro conjI)
  show "mask_elements (py_split seg sep) = Inr (normalize_elements (py_split seg sep))"
    by (simp add: mask_elements_total py_split_not_Nil)
  show "map Some (mask_dates_times segments sep) = map (\<lambda>s. mask_segment s sep) segments"
    by (induction segments) (simp_all add: mask_segment_total)
  show "length (mask_dates_times segments sep) = length segments"
    by (simp add: mask_dates_times_map)
qed

section \<open>Claims about the envelope parser\<close>

text \<open>
  Claim C7. A text whose first segment beginning with \<open>ISA\<close> has fewer than four
  characters should make the parser signal a controlled parse error. The read
  \<^verbatim>\<open>isa_segment[3]\<close> of line 17 is not guarded: on the text \<open>ISA~\<close> the parser raises
  \<^verbatim>\<open>IndexError\<close>, not the \<^verbatim>\<open>ValueError\<close> it raises for a missing envelope.
\<close>

theorem parse_edi_short_isa_index_error:
  "parse_edi ''ISA~'' = Inl IndexError"
  by (simp add: parse_edi_def startswith_def py_getitem_def)

end
